theory Spec2Isabelle
  imports Complex_Main
begin

section \<open>Quick Kick Mogul: the game logic of \<^verbatim>\<open>src/App.tsx\<close>\<close>

text \<open>
  The application is one React component. Its \<^verbatim>\<open>useState\<close> cells are the fields of one
  record, every handler is a function from the state to the state it leaves behind, and
  what \<^verbatim>\<open>alert\<close> shows is returned next to the state. \<^verbatim>\<open>Math.random()\<close> is an argument
  of the function that draws from it.

  Numbers: a JavaScript number is an IEEE double. The counters that the code only ever
  moves in whole steps (a player's overall and value, the league level, the seconds left,
  the click power, the stadium capacity, the promotion requirements) are \<open>int\<close>; money,
  rewards, factors and the progress percentage are exact rationals. The products in the
  outcome thresholds (\<^verbatim>\<open>opponentOverall * 1.1\<close> and so on) are therefore exact here, where
  a double rounds them.
\<close>

subsection \<open>Players and league tiers\<close>

datatype position = FWD | MID | DEF | GK

record player =
  id_p :: string
  name :: string
  overall :: int
  value_p :: int
  position :: position

record factor_range =
  minFactor :: rat
  maxFactor :: rat

record LeagueTier =
  level :: int
  tier_name :: string
  baseWinReward :: rat
  overallMultiplier :: rat
  opponentOverallRange :: factor_range
  promotionThresholdOverall :: int
  promotionCost :: int

definition LEAGUE_TIERS :: "LeagueTier list" where
  "LEAGUE_TIERS =
    [ \<lparr> level = 1, tier_name = ''Amateur League'', baseWinReward = 100,
        overallMultiplier = 1 / 2,
        opponentOverallRange = \<lparr> minFactor = 4 / 10, maxFactor = 7 / 10 \<rparr>,
        promotionThresholdOverall = 400, promotionCost = 5000 \<rparr>,
      \<lparr> level = 2, tier_name = ''Regional League'', baseWinReward = 500,
        overallMultiplier = 1,
        opponentOverallRange = \<lparr> minFactor = 6 / 10, maxFactor = 9 / 10 \<rparr>,
        promotionThresholdOverall = 800, promotionCost = 20000 \<rparr>,
      \<lparr> level = 3, tier_name = ''National League'', baseWinReward = 2000,
        overallMultiplier = 2,
        opponentOverallRange = \<lparr> minFactor = 8 / 10, maxFactor = 11 / 10 \<rparr>,
        promotionThresholdOverall = 1500, promotionCost = 100000 \<rparr>,
      \<lparr> level = 4, tier_name = ''Continental Championship'', baseWinReward = 5000,
        overallMultiplier = 3,
        opponentOverallRange = \<lparr> minFactor = 1, maxFactor = 13 / 10 \<rparr>,
        promotionThresholdOverall = 2500, promotionCost = 500000 \<rparr> ]"

text \<open>
  \<^verbatim>\<open>generateRandomPlayer\<close> draws a name, an initial, an id suffix and an overall. The id and
  the name are strings that no rule of the game reads, so the draw hands them over as they
  come out; the overall is computed from the draw \<open>rnd_overall\<close> in \<open>[0, 1)\<close> as the code
  does.
\<close>

record draw =
  rnd_id :: string
  rnd_name :: string
  rnd_overall :: rat

definition generateRandomPlayer :: "draw \<Rightarrow> int \<Rightarrow> int \<Rightarrow> position \<Rightarrow> player" where
  "generateRandomPlayer d minOverall maxOverall pos =
     (let randomOverall = \<lfloor>rnd_overall d * of_int (maxOverall - minOverall + 1)\<rfloor> + minOverall
      in \<lparr> id_p = rnd_id d, name = rnd_name d, overall = randomOverall,
           value_p = randomOverall * 100, position = pos \<rparr>)"

text \<open>The seven calls of \<^verbatim>\<open>generateInitialLineup\<close>, call \<open>i\<close> drawing \<open>rnd i\<close>.\<close>

definition generateInitialLineup :: "(nat \<Rightarrow> draw) \<Rightarrow> player list" where
  "generateInitialLineup rnd =
    [ generateRandomPlayer (rnd 0) 50 60 GK,
      generateRandomPlayer (rnd 1) 45 55 DEF,
      generateRandomPlayer (rnd 2) 45 55 DEF,
      generateRandomPlayer (rnd 3) 55 65 MID,
      generateRandomPlayer (rnd 4) 55 65 MID,
      generateRandomPlayer (rnd 5) 60 70 FWD,
      generateRandomPlayer (rnd 6) 60 70 FWD ]"

subsection \<open>The state of the component\<close>

text \<open>
  The interval callback calls the \<^verbatim>\<open>finishMatch\<close> of the render in which the interval was
  created, so it reads the \<^verbatim>\<open>players\<close> and the \<^verbatim>\<open>currentLeagueLevel\<close> of that render. The
  timer handle \<^verbatim>\<open>matchIntervalRef.current\<close> is \<open>None\<close> for \<^verbatim>\<open>null\<close> and otherwise holds
  what the running callback has captured.
\<close>

record captured =
  cap_players :: "player list"
  cap_level :: int

record game_state =
  money :: rat
  clickPower :: int
  stadiumCapacity :: int
  passiveIncomePerSecond :: rat
  currentLeagueLevel :: int
  players :: "player list"
  matchInProgress :: bool
  matchTimeLeft :: int
  matchProgress :: rat
  matchIntervalRef :: "captured option"

definition MATCH_DURATION_SECONDS :: int where
  "MATCH_DURATION_SECONDS = 5 * 60"

datatype outcome = DOMINANT_WIN | WIN | DRAW | LOSS

datatype alert =
    Recruited
  | NotEnoughMoneyToRecruit
  | Trained
  | NotEnoughMoneyToTrain
  | MatchSkipped
  | LeagueDataMissing
  | MatchResult outcome rat
  | NeedPlayers
  | NotEnoughMoneyForPromotion
  | NotStrongEnough
  | Promoted

subsection \<open>Match resolution\<close>

text \<open>\<^verbatim>\<open>players.reduce((sum, p) => sum + p.overall, 0)\<close>\<close>

definition teamOverall_of :: "player list \<Rightarrow> int" where
  "teamOverall_of ps = foldl (\<lambda>sum p. sum + overall p) 0 ps"

text \<open>The opponent of \<^verbatim>\<open>finishMatch\<close>, from the draw \<open>r\<close> of \<^verbatim>\<open>Math.random()\<close>.\<close>

definition opponentOverall_of :: "rat \<Rightarrow> int \<Rightarrow> LeagueTier \<Rightarrow> int" where
  "opponentOverall_of r teamOverall currentTier =
     \<lfloor>r * (of_int teamOverall * maxFactor (opponentOverallRange currentTier)
              - of_int teamOverall * minFactor (opponentOverallRange currentTier))
        + of_int teamOverall * minFactor (opponentOverallRange currentTier)\<rfloor>"

text \<open>
  The chain of comparisons of \<^verbatim>\<open>finishMatch\<close>: the category that the result message
  announces, and \<^verbatim>\<open>matchBonus\<close>.
\<close>

definition matchOutcome :: "int \<Rightarrow> int \<Rightarrow> LeagueTier \<Rightarrow> outcome \<times> rat" where
  "matchOutcome teamOverall opponentOverall currentTier =
     (if of_int teamOverall > of_int opponentOverall * (11 / 10 :: rat) then
        (DOMINANT_WIN,
         baseWinReward currentTier * (3 / 2)
           + of_int teamOverall * overallMultiplier currentTier * (3 / 2))
      else if of_int teamOverall > of_int opponentOverall * (9 / 10 :: rat) then
        (WIN, baseWinReward currentTier + of_int teamOverall * overallMultiplier currentTier)
      else if of_int teamOverall > of_int opponentOverall * (7 / 10 :: rat) then
        (DRAW,
         baseWinReward currentTier * (1 / 2)
           + of_int teamOverall * overallMultiplier currentTier * (1 / 2))
      else
        (LOSS,
         baseWinReward currentTier * (1 / 10)
           + of_int teamOverall * overallMultiplier currentTier * (1 / 10)))"

definition finishMatch :: "rat \<Rightarrow> captured \<Rightarrow> game_state \<Rightarrow> alert option \<times> game_state" where
  "finishMatch r cl s =
     (let s1 = s \<lparr> matchInProgress := False,
                   matchTimeLeft := MATCH_DURATION_SECONDS,
                   matchIntervalRef := None \<rparr>;
          teamOverall = teamOverall_of (cap_players cl)
      in if teamOverall = 0 then (Some MatchSkipped, s1)
         else
           (case find (\<lambda>tier. level tier = cap_level cl) LEAGUE_TIERS of
              None \<Rightarrow> (Some LeagueDataMissing, s1)
            | Some currentTier \<Rightarrow>
                (let opponentOverall = opponentOverall_of r teamOverall currentTier;
                     (matchResult, matchBonus) =
                        matchOutcome teamOverall opponentOverall currentTier
                 in (Some (MatchResult matchResult matchBonus),
                     s1 \<lparr> money := money s1 + matchBonus \<rparr>))))"

text \<open>The order of the categories, best first: \<open>DOMINANT_WIN > WIN > DRAW > LOSS\<close>.\<close>

fun rank :: "outcome \<Rightarrow> nat" where
  "rank DOMINANT_WIN = 3"
| "rank WIN = 2"
| "rank DRAW = 1"
| "rank LOSS = 0"

text \<open>The factor of the reward in each category.\<close>

fun scale :: "outcome \<Rightarrow> rat" where
  "scale DOMINANT_WIN = 3 / 2"
| "scale WIN = 1"
| "scale DRAW = 1 / 2"
| "scale LOSS = 1 / 10"

subsection \<open>Earning, training and recruiting\<close>

definition handleTicketSaleClick :: "game_state \<Rightarrow> game_state" where
  "handleTicketSaleClick s = s \<lparr> money := money s + of_int (clickPower s) \<rparr>"

text \<open>\<^verbatim>\<open>prevPlayers.map((p, index) => ...)\<close>: the callback sees each element and its index.\<close>

definition map_index :: "('a \<Rightarrow> nat \<Rightarrow> 'b) \<Rightarrow> 'a list \<Rightarrow> 'b list" where
  "map_index f xs = map (\<lambda>(p, index). f p index) (zip xs [0 ..< length xs])"

text \<open>
  \<^verbatim>\<open>players[slotIndex]\<close> is \<^verbatim>\<open>undefined\<close> outside the roster, and both handlers return at
  once there.
\<close>

definition recruitNewPlayerInSlot :: "draw \<Rightarrow> nat \<Rightarrow> game_state \<Rightarrow> alert option \<times> game_state" where
  "recruitNewPlayerInSlot d slotIndex s =
     (if \<not> slotIndex < length (players s) then (None, s)
      else
        (let oldPlayer = players s ! slotIndex;
             newPlayerMinOverall = overall oldPlayer + 5;
             newPlayerMaxOverall = overall oldPlayer + 15;
             newPlayer = generateRandomPlayer d newPlayerMinOverall newPlayerMaxOverall
                           (position oldPlayer)
         in if money s \<ge> of_int (value_p newPlayer) then
              (Some Recruited,
               s \<lparr> money := money s - of_int (value_p newPlayer),
                   players := map_index (\<lambda>p index. if index = slotIndex then newPlayer else p)
                                (players s) \<rparr>)
            else (Some NotEnoughMoneyToRecruit, s)))"

definition trainPlayerInSlot :: "nat \<Rightarrow> game_state \<Rightarrow> alert option \<times> game_state" where
  "trainPlayerInSlot slotIndex s =
     (if \<not> slotIndex < length (players s) then (None, s)
      else
        (let playerToTrain = players s ! slotIndex;
             trainCost = overall playerToTrain * 5
         in if money s \<ge> of_int trainCost then
              (Some Trained,
               s \<lparr> money := money s - of_int trainCost,
                   players := map_index
                     (\<lambda>p index. if index = slotIndex
                        then p \<lparr> overall := overall p + 1, value_p := value_p p + 100 \<rparr>
                        else p)
                     (players s) \<rparr>)
            else (Some NotEnoughMoneyToTrain, s)))"

subsection \<open>The match timer\<close>

definition startMatch :: "game_state \<Rightarrow> alert option \<times> game_state" where
  "startMatch s =
     (if length (players s) = 0 then (Some NeedPlayers, s)
      else if matchInProgress s then (None, s)
      else
        (None,
         s \<lparr> matchInProgress := True,
             matchTimeLeft := MATCH_DURATION_SECONDS,
             matchProgress := 0,
             matchIntervalRef :=
               Some \<lparr> cap_players = players s, cap_level = currentLeagueLevel s \<rparr> \<rparr>))"

text \<open>
  One firing of the interval callback, the same function in \<^verbatim>\<open>startMatch\<close> and in the load
  effect. It hands React an updater of \<^verbatim>\<open>matchTimeLeft\<close>. The updater sets the progress,
  calls \<^verbatim>\<open>finishMatch\<close> when the new time is not positive, and returns the new
  \<^verbatim>\<open>matchTimeLeft\<close>. No interval, no firing. The draw \<open>r\<close> is the one \<^verbatim>\<open>finishMatch\<close> uses.

  On the tick that ends the match the updater writes \<^verbatim>\<open>matchTimeLeft\<close> twice: \<^verbatim>\<open>finishMatch\<close>
  calls \<^verbatim>\<open>setMatchTimeLeft(MATCH_DURATION_SECONDS)\<close>, and the updater then returns \<open>0\<close>.
  Which of the two is applied last is React's choice. When it runs the updater at once, as
  the interval dispatches it, the call inside \<^verbatim>\<open>finishMatch\<close> is queued before the updater's
  own result, and the \<open>0\<close> stays. When it runs the updater while rendering, the call inside
  \<^verbatim>\<open>finishMatch\<close> is an update of the render in progress, applied on top of the updater's
  result, and the \<open>300\<close> stays. The choice is an argument of the tick, as the draw is.
\<close>

datatype schedule = AtDispatch | WhileRendering

definition matchTick :: "schedule \<Rightarrow> rat \<Rightarrow> game_state \<Rightarrow> alert option \<times> game_state" where
  "matchTick ord r s =
     (case matchIntervalRef s of
        None \<Rightarrow> (None, s)
      | Some cl \<Rightarrow>
          (let prevTime = matchTimeLeft s;
               newTime = prevTime - 1;
               s1 = s \<lparr> matchProgress :=
                          (of_int (MATCH_DURATION_SECONDS - newTime)
                             / of_int MATCH_DURATION_SECONDS) * 100 \<rparr>
           in if newTime \<le> 0 then
                (let (a, s2) = finishMatch r cl s1
                 in (a, case ord of
                          AtDispatch \<Rightarrow> s2 \<lparr> matchTimeLeft := 0 \<rparr>
                        | WhileRendering \<Rightarrow> s2))
              else (None, s1 \<lparr> matchTimeLeft := newTime \<rparr>)))"

text \<open>The ticks of a match one after the other, each with its schedule and its draw.\<close>

fun matchTicks :: "(schedule \<times> rat) list \<Rightarrow> game_state \<Rightarrow> game_state" where
  "matchTicks [] s = s"
| "matchTicks ((ord, r) # rs) s = matchTicks rs (snd (matchTick ord r s))"

subsection \<open>Promotion\<close>

text \<open>
  The \<^verbatim>\<open>onClick\<close> of the promote button. \<^verbatim>\<open>nextLeague\<close> is the tier one level above the
  current one, and it is that tier's cost and threshold the handler reads.
\<close>

definition promoteLeague :: "game_state \<Rightarrow> alert option \<times> game_state" where
  "promoteLeague s =
     (case find (\<lambda>t. level t = currentLeagueLevel s + 1) LEAGUE_TIERS of
        None \<Rightarrow> (None, s)
      | Some nextLeague \<Rightarrow>
          (let teamOverall = teamOverall_of (players s)
           in if money s < of_int (promotionCost nextLeague) then
                (Some NotEnoughMoneyForPromotion, s)
              else if teamOverall < promotionThresholdOverall nextLeague then
                (Some NotStrongEnough, s)
              else
                (Some Promoted,
                 s \<lparr> money := money s - of_int (promotionCost nextLeague),
                     currentLeagueLevel := currentLeagueLevel s + 1 \<rparr>)))"

subsection \<open>Persistence\<close>

text \<open>
  \<^verbatim>\<open>localStorage.getItem\<close> gives \<open>None\<close> when there is no item (an empty string is as
  falsy as \<^verbatim>\<open>null\<close> in \<^verbatim>\<open>if (savedGame)\<close>, and is \<open>None\<close> too). \<^verbatim>\<open>JSON.parse\<close> itself is the
  browser's; what it makes of the stored string is the input here:
  \<^item> \<open>Unparsable\<close>: the string is not JSON, and \<^verbatim>\<open>JSON.parse\<close> throws a \<^verbatim>\<open>SyntaxError\<close>;
  \<^item> \<open>ParsedNull\<close>: the string is the JSON text \<^verbatim>\<open>null\<close>; \<^verbatim>\<open>JSON.parse\<close> returns \<^verbatim>\<open>null\<close>, and
    the first read of a field of it throws a \<^verbatim>\<open>TypeError\<close>;
  \<^item> \<open>Parsed\<close>: \<^verbatim>\<open>JSON.parse\<close> returns an object. A field of it is \<open>None\<close> when it is
    missing or \<^verbatim>\<open>null\<close>, which \<^verbatim>\<open>||\<close> treats alike. A field that is there has the type
    that the state gives it; an object with a field of another type (a roster that is not
    an array, say) is outside this model.
  A stored number, string, boolean or array parses to a value that reads as
  \<^verbatim>\<open>undefined\<close> at every one of these field names: it is \<open>Parsed\<close> of the object with no
  field.
\<close>

record saved =
  sv_money :: "rat option"
  sv_clickPower :: "int option"
  sv_stadiumCapacity :: "int option"
  sv_passiveIncomePerSecond :: "rat option"
  sv_players :: "player list option"
  sv_matchInProgress :: "bool option"
  sv_matchTimeLeft :: "int option"
  sv_currentLeagueLevel :: "int option"

datatype stored = Unparsable | ParsedNull | Parsed saved

datatype error = SyntaxError | TypeError

text \<open>
  \<^verbatim>\<open>x || d\<close> on a number: \<open>d\<close> when \<open>x\<close> is missing or \<open>0\<close>. On a flag, \<^verbatim>\<open>x || false\<close> is
  \<open>x\<close>, and false when it is missing. An array is never falsy.
\<close>

definition or_default :: "'a::zero option \<Rightarrow> 'a \<Rightarrow> 'a" where
  "or_default x d = (case x of None \<Rightarrow> d | Some v \<Rightarrow> if v = 0 then d else v)"

definition or_false :: "bool option \<Rightarrow> bool" where
  "or_false x = (case x of None \<Rightarrow> False | Some b \<Rightarrow> b)"

text \<open>The save effect: the object handed to \<^verbatim>\<open>JSON.stringify\<close>, as it parses back.\<close>

definition saveEffect :: "game_state \<Rightarrow> saved" where
  "saveEffect s =
     \<lparr> sv_money = Some (money s),
       sv_clickPower = Some (clickPower s),
       sv_stadiumCapacity = Some (stadiumCapacity s),
       sv_passiveIncomePerSecond = Some (passiveIncomePerSecond s),
       sv_players = Some (players s),
       sv_matchInProgress = Some (matchInProgress s),
       sv_matchTimeLeft = Some (matchTimeLeft s),
       sv_currentLeagueLevel = Some (currentLeagueLevel s) \<rparr>"

text \<open>
  The first render: the \<^verbatim>\<open>useState\<close> initial values. The initialisers of
  \<^verbatim>\<open>currentLeagueLevel\<close> and \<^verbatim>\<open>players\<close> read the stored item, with no handler around
  \<^verbatim>\<open>JSON.parse\<close> or around \<^verbatim>\<open>parsedState.currentLeagueLevel\<close>: the first of them throws
  what there is to throw.
\<close>

definition initialState :: "stored option \<Rightarrow> (nat \<Rightarrow> draw) \<Rightarrow> error + game_state" where
  "initialState storage rnd =
     (case storage of
        Some Unparsable \<Rightarrow> Inl SyntaxError
      | Some ParsedNull \<Rightarrow> Inl TypeError
      | _ \<Rightarrow>
        Inr \<lparr> money = 0,
              clickPower = 1,
              stadiumCapacity = 100,
              passiveIncomePerSecond = 0,
              currentLeagueLevel =
                (case storage of
                   Some (Parsed parsedState) \<Rightarrow> or_default (sv_currentLeagueLevel parsedState) 1
                 | _ \<Rightarrow> 1),
              players =
                (case storage of
                   Some (Parsed parsedState) \<Rightarrow>
                     (case sv_players parsedState of
                        Some ps \<Rightarrow> ps
                      | None \<Rightarrow> generateInitialLineup rnd)
                 | _ \<Rightarrow> generateInitialLineup rnd),
              matchInProgress = False,
              matchTimeLeft = MATCH_DURATION_SECONDS,
              matchProgress = 0,
              matchIntervalRef = None \<rparr>)"

text \<open>
  The load effect, run on the state \<open>s\<close> of the first render with what \<^verbatim>\<open>getItem\<close> returns
  at that moment. The interval it creates calls the \<^verbatim>\<open>finishMatch\<close> of the first render.
\<close>

definition loadEffect :: "stored option \<Rightarrow> game_state \<Rightarrow> error + game_state" where
  "loadEffect storage s =
     (case storage of
        None \<Rightarrow> Inr (s \<lparr> passiveIncomePerSecond := of_int (stadiumCapacity s) / 100 \<rparr>)
      | Some Unparsable \<Rightarrow> Inl SyntaxError
      | Some ParsedNull \<Rightarrow> Inl TypeError
      | Some (Parsed parsedState) \<Rightarrow>
          (let s1 = s \<lparr> money := or_default (sv_money parsedState) 0,
                        clickPower := or_default (sv_clickPower parsedState) 1,
                        stadiumCapacity := or_default (sv_stadiumCapacity parsedState) 100,
                        passiveIncomePerSecond :=
                          or_default (sv_passiveIncomePerSecond parsedState) 0,
                        matchInProgress := or_false (sv_matchInProgress parsedState),
                        matchTimeLeft :=
                          or_default (sv_matchTimeLeft parsedState) MATCH_DURATION_SECONDS \<rparr>
           in case (sv_matchInProgress parsedState, sv_matchTimeLeft parsedState) of
                (Some True, Some timeLeft) \<Rightarrow>
                  if timeLeft > 0 then
                    Inr (s1 \<lparr> matchProgress :=
                                (of_int (MATCH_DURATION_SECONDS - timeLeft)
                                   / of_int MATCH_DURATION_SECONDS) * 100,
                              matchIntervalRef :=
                                Some \<lparr> cap_players = players s,
                                       cap_level = currentLeagueLevel s \<rparr> \<rparr>)
                  else Inr s1
              | _ \<Rightarrow> Inr s1))"

text \<open>
  Starting the process. React runs the effects of a component after its first render in
  the order of their declaration, and the save effect (3) is declared before the load
  effect (4): the item that the load effect reads is the one the save effect has just
  written from the state of the first render.
\<close>

definition mount :: "stored option \<Rightarrow> (nat \<Rightarrow> draw) \<Rightarrow> error + game_state" where
  "mount storage rnd =
     (case initialState storage rnd of
        Inl e \<Rightarrow> Inl e
      | Inr s0 \<Rightarrow> loadEffect (Some (Parsed (saveEffect s0))) s0)"

text \<open>Stopping the process in state \<open>s\<close> and starting it again: the item holds the last save.\<close>

definition restart :: "game_state \<Rightarrow> (nat \<Rightarrow> draw) \<Rightarrow> error + game_state" where
  "restart s rnd = mount (Some (Parsed (saveEffect s))) rnd"

subsection \<open>Sample data\<close>

definition sample_draw :: draw where
  "sample_draw = \<lparr> rnd_id = ''17000000001'', rnd_name = ''Liam A'', rnd_overall = 1 / 2 \<rparr>"

definition sample_rnd :: "nat \<Rightarrow> draw" where
  "sample_rnd i = sample_draw"

text \<open>A roster of \<open>n\<close> players of overall \<open>ov\<close> each.\<close>

definition squad :: "nat \<Rightarrow> int \<Rightarrow> player list" where
  "squad n ov =
     replicate n \<lparr> id_p = ''p'', name = ''Noah B'', overall = ov, value_p = ov * 100,
                   position = MID \<rparr>"

text \<open>A state between matches with the given money, league level and roster.\<close>

definition idle_state :: "rat \<Rightarrow> int \<Rightarrow> player list \<Rightarrow> game_state" where
  "idle_state m lvl ps =
     \<lparr> money = m, clickPower = 1, stadiumCapacity = 100, passiveIncomePerSecond = 0,
       currentLeagueLevel = lvl, players = ps, matchInProgress = False,
       matchTimeLeft = 300, matchProgress = 0, matchIntervalRef = None \<rparr>"

text \<open>
  The state \<open>idle_state 0 1 (squad 7 60)\<close> with a match running since \<open>startMatch\<close> and
  \<open>t\<close> seconds left on the clock.
\<close>

definition running_state :: "int \<Rightarrow> game_state" where
  "running_state t =
     \<lparr> money = 0, clickPower = 1, stadiumCapacity = 100, passiveIncomePerSecond = 0,
       currentLeagueLevel = 1, players = squad 7 60, matchInProgress = True,
       matchTimeLeft = t, matchProgress = of_int (300 - t) / 300 * 100,
       matchIntervalRef = Some \<lparr> cap_players = squad 7 60, cap_level = 1 \<rparr> \<rparr>"

text \<open>A stored object with no field at all.\<close>

definition blank :: saved where
  "blank =
     \<lparr> sv_money = None, sv_clickPower = None, sv_stadiumCapacity = None,
       sv_passiveIncomePerSecond = None, sv_players = None, sv_matchInProgress = None,
       sv_matchTimeLeft = None, sv_currentLeagueLevel = None \<rparr>"

section \<open>Properties\<close>

subsection \<open>Auxiliary facts\<close>

lemma teamOverall_of_sum: "teamOverall_of ps = sum_list (map overall ps)"
proof -
  have "foldl (\<lambda>sum p. sum + overall p) a ps = a + sum_list (map overall ps)" for a
    by (induction ps arbitrary: a) simp_all
  then show ?thesis by (simp add: teamOverall_of_def)
qed

lemma teamOverall_of_squad: "teamOverall_of (squad n ov) = int n * ov"
  by (simp add: teamOverall_of_sum squad_def sum_list_replicate)

lemma find_tier_1: "find (\<lambda>t. level t = 1) LEAGUE_TIERS = Some (LEAGUE_TIERS ! 0)"
  by (simp add: LEAGUE_TIERS_def)

lemma find_tier_2: "find (\<lambda>t. level t = 2) LEAGUE_TIERS = Some (LEAGUE_TIERS ! 1)"
  by (simp add: LEAGUE_TIERS_def)

lemma find_tier_5: "find (\<lambda>t. level t = 5) LEAGUE_TIERS = None"
  by (simp add: LEAGUE_TIERS_def)

lemma map_index_update:
  "map_index (\<lambda>p index. if index = i then f p else p) xs =
     (if i < length xs then xs[i := f (xs ! i)] else xs)"
  by (rule nth_equalityI) (auto simp add: map_index_def nth_list_update)

lemma length_map_index: "length (map_index f xs) = length xs"
  by (simp add: map_index_def)

lemma or_default_simps:
  "or_default None d = d"
  "or_default (Some v) d = (if v = 0 then d else v)"
  by (simp_all add: or_default_def)

lemma or_false_simps: "or_false None = False" "or_false (Some b) = b"
  by (simp_all add: or_false_def)

subsection \<open>Promotion\<close>

text \<open>
  Claim C1, as amended. From league level 1 the handler reads the requirements of the
  tier of level 2, a cost of 20000 and a summed overall of 800: below 20000 the call is
  rejected for lack of money, from 20000 on but under 800 it is rejected for lack of
  strength, and otherwise it succeeds, the level becomes 2 and 20000 is deducted. With a
  summed overall of 420 and 5000 in the bank the call is rejected.
\<close>

theorem promote_from_level_1:
  "currentLeagueLevel s = 1 \<Longrightarrow>
   promoteLeague s =
     (if money s < 20000 then (Some NotEnoughMoneyForPromotion, s)
      else if teamOverall_of (players s) < 800 then (Some NotStrongEnough, s)
      else (Some Promoted, s \<lparr> money := money s - 20000, currentLeagueLevel := 2 \<rparr>))"
  by (simp add: promoteLeague_def find_tier_2 LEAGUE_TIERS_def Let_def)

theorem promote_from_level_1_witness:
  "currentLeagueLevel (idle_state 20000 1 (squad 7 120)) = 1
   \<and> teamOverall_of (squad 7 120) = 840
   \<and> promoteLeague (idle_state 20000 1 (squad 7 120))
       = (Some Promoted, idle_state 0 2 (squad 7 120))
   \<and> promoteLeague (idle_state 5000 1 (squad 7 60))
       = (Some NotEnoughMoneyForPromotion, idle_state 5000 1 (squad 7 60))"
  using promote_from_level_1 [of "idle_state 20000 1 (squad 7 120)"]
    promote_from_level_1 [of "idle_state 5000 1 (squad 7 60)"]
  by (simp add: idle_state_def teamOverall_of_squad)

text \<open>
  The scenario of claim C1 as it is written: level 1, seven players of overall 60 (420 in
  all) and 5000 in the bank. The call is rejected; the level stays 1 and the money 5000.
\<close>

theorem scenario_C_rejected:
  "currentLeagueLevel (idle_state 5000 1 (squad 7 60)) = 1
   \<and> teamOverall_of (players (idle_state 5000 1 (squad 7 60))) = 420
   \<and> money (idle_state 5000 1 (squad 7 60)) = 5000
   \<and> promoteLeague (idle_state 5000 1 (squad 7 60))
       = (Some NotEnoughMoneyForPromotion, idle_state 5000 1 (squad 7 60))
   \<and> currentLeagueLevel (snd (promoteLeague (idle_state 5000 1 (squad 7 60)))) = 1
   \<and> money (snd (promoteLeague (idle_state 5000 1 (squad 7 60)))) = 5000"
  by (simp add: promoteLeague_def find_tier_2 LEAGUE_TIERS_def Let_def idle_state_def
      teamOverall_of_squad)

text \<open>
  Claim C6. When there is no next tier, or the money is below the next tier's cost, or
  the summed overall is below the next tier's threshold, \<open>promoteLeague\<close> does not
  promote and returns the state it was given, every field of it.
\<close>

theorem promote_rejected_unchanged:
  "(case find (\<lambda>t. level t = currentLeagueLevel s + 1) LEAGUE_TIERS of
      None \<Rightarrow> True
    | Some nextLeague \<Rightarrow>
        money s < of_int (promotionCost nextLeague)
        \<or> teamOverall_of (players s) < promotionThresholdOverall nextLeague) \<Longrightarrow>
   snd (promoteLeague s) = s \<and> fst (promoteLeague s) \<noteq> Some Promoted"
  by (auto simp add: promoteLeague_def Let_def split: option.splits)

theorem promote_rejected_unchanged_witness:
  "snd (promoteLeague (idle_state 900000 4 (squad 7 500))) = idle_state 900000 4 (squad 7 500)
   \<and> snd (promoteLeague (idle_state 19999 1 (squad 7 120))) = idle_state 19999 1 (squad 7 120)
   \<and> snd (promoteLeague (idle_state 20000 1 (squad 7 60))) = idle_state 20000 1 (squad 7 60)"
  using promote_rejected_unchanged [of "idle_state 900000 4 (squad 7 500)"]
    promote_rejected_unchanged [of "idle_state 19999 1 (squad 7 120)"]
    promote_rejected_unchanged [of "idle_state 20000 1 (squad 7 60)"]
  by (simp add: idle_state_def find_tier_2 find_tier_5 LEAGUE_TIERS_def teamOverall_of_squad)

subsection \<open>Match resolution\<close>

text \<open>
  Claim C2. For a team of positive summed overall and a league tier that is in the table,
  \<open>finishMatch\<close> with any draw announces the first category whose threshold the team
  exceeds (\<open>DOMINANT_WIN\<close> above 1.1 times the opponent, \<open>WIN\<close> above 0.9 times,
  \<open>DRAW\<close> above 0.7 times, \<open>LOSS\<close> otherwise) and adds to the money the tier's base
  reward plus the team's overall times the tier's multiplier, both scaled by 1.5, 1, 0.5
  or 0.1. A team of 100 against an opponent of 50 is a \<open>DOMINANT_WIN\<close> in every tier.
\<close>

theorem finishMatch_resolves:
  "0 < teamOverall_of (cap_players cl) \<Longrightarrow>
   find (\<lambda>tier. level tier = cap_level cl) LEAGUE_TIERS = Some tier \<Longrightarrow>
   (let t = teamOverall_of (cap_players cl);
        opp = opponentOverall_of r t tier;
        res = (if of_int t > of_int opp * (11 / 10 :: rat) then DOMINANT_WIN
               else if of_int t > of_int opp * (9 / 10 :: rat) then WIN
               else if of_int t > of_int opp * (7 / 10 :: rat) then DRAW
               else LOSS);
        reward = baseWinReward tier * scale res + of_int t * overallMultiplier tier * scale res
    in fst (matchOutcome t opp tier) = res
     \<and> finishMatch r cl s =
        (Some (MatchResult res reward),
         s \<lparr> matchInProgress := False, matchTimeLeft := 300, matchIntervalRef := None,
             money := money s + reward \<rparr>))
   \<and> matchOutcome 100 50 tier =
        (DOMINANT_WIN, baseWinReward tier * (3 / 2) + 100 * overallMultiplier tier * (3 / 2))"
  by (simp add: finishMatch_def matchOutcome_def MATCH_DURATION_SECONDS_def Let_def)

theorem finishMatch_resolves_witness:
  "teamOverall_of (squad 2 50) = 100
   \<and> opponentOverall_of (1 / 3) 100 (LEAGUE_TIERS ! 0) = 50
   \<and> finishMatch (1 / 3) \<lparr> cap_players = squad 2 50, cap_level = 1 \<rparr>
        (idle_state 10 1 (squad 2 50) \<lparr> matchInProgress := True, matchTimeLeft := 0 \<rparr>)
      = (Some (MatchResult DOMINANT_WIN 225), idle_state 235 1 (squad 2 50))"
  using finishMatch_resolves [of "\<lparr> cap_players = squad 2 50, cap_level = 1 \<rparr>"
      "LEAGUE_TIERS ! 0" "1 / 3"
      "idle_state 10 1 (squad 2 50) \<lparr> matchInProgress := True, matchTimeLeft := 0 \<rparr>"]
  by (simp add: teamOverall_of_squad find_tier_1 opponentOverall_of_def idle_state_def
      LEAGUE_TIERS_def Let_def)

text \<open>
  Claim C7. Against the same opponent, a team of higher summed overall never gets a
  category of lower rank.
\<close>

theorem outcome_monotone:
  "t1 \<le> t2 \<Longrightarrow>
     rank (fst (matchOutcome t1 opp tier)) \<le> rank (fst (matchOutcome t2 opp tier))"
  by (simp add: matchOutcome_def)

theorem outcome_monotone_witness:
  "(60::int) \<le> 100 \<and> fst (matchOutcome 60 100 (LEAGUE_TIERS ! 0)) = LOSS
     \<and> fst (matchOutcome 100 100 (LEAGUE_TIERS ! 0)) = WIN
     \<and> rank (fst (matchOutcome 60 100 (LEAGUE_TIERS ! 0)))
         \<le> rank (fst (matchOutcome 100 100 (LEAGUE_TIERS ! 0)))"
  using outcome_monotone [of 60 100 100 "LEAGUE_TIERS ! 0"]
  by (simp add: matchOutcome_def)

subsection \<open>Training and recruiting\<close>

text \<open>
  Claim C8. Neither \<open>trainPlayerInSlot\<close> nor \<open>recruitNewPlayerInSlot\<close> changes the
  length of the roster, and after training no slot has a lower overall or value than
  before. A training that succeeds is one on a slot of the roster with money of at least
  five times that player's overall; it deducts that cost, adds 1 to the overall and 100 to
  the value of the player in the slot, and leaves every other slot as it was.
\<close>

theorem roster_train_recruit:
  "length (players (snd (trainPlayerInSlot i s))) = length (players s)
   \<and> length (players (snd (recruitNewPlayerInSlot d i s))) = length (players s)
   \<and> (\<forall>j < length (players s).
         overall (players s ! j) \<le> overall (players (snd (trainPlayerInSlot i s)) ! j)
       \<and> value_p (players s ! j) \<le> value_p (players (snd (trainPlayerInSlot i s)) ! j))
   \<and> (i < length (players s) \<and> money s \<ge> of_int (overall (players s ! i) * 5) \<longrightarrow>
        trainPlayerInSlot i s =
          (Some Trained,
           s \<lparr> money := money s - of_int (overall (players s ! i) * 5),
               players := (players s)
                 [i := (players s ! i) \<lparr> overall := overall (players s ! i) + 1,
                                          value_p := value_p (players s ! i) + 100 \<rparr>] \<rparr>))
   \<and> (fst (trainPlayerInSlot i s) = Some Trained \<longrightarrow>
        i < length (players s) \<and> money s \<ge> of_int (overall (players s ! i) * 5))
   \<and> (\<forall>j < length (players s). j \<noteq> i \<longrightarrow>
         players (snd (trainPlayerInSlot i s)) ! j = players s ! j)"
  by (auto simp add: trainPlayerInSlot_def recruitNewPlayerInSlot_def Let_def
      map_index_update length_map_index nth_list_update)

theorem roster_train_recruit_witness:
  "trainPlayerInSlot 1 (idle_state 1000 1 (squad 3 60)) =
     (Some Trained,
      idle_state 700 1
        [ \<lparr> id_p = ''p'', name = ''Noah B'', overall = 60, value_p = 6000, position = MID \<rparr>,
          \<lparr> id_p = ''p'', name = ''Noah B'', overall = 61, value_p = 6100, position = MID \<rparr>,
          \<lparr> id_p = ''p'', name = ''Noah B'', overall = 60, value_p = 6000, position = MID \<rparr> ])
   \<and> length (players (snd (recruitNewPlayerInSlot sample_draw 1
                               (idle_state 10000 1 (squad 3 60))))) = 3"
  using roster_train_recruit [of 1 "idle_state 1000 1 (squad 3 60)" sample_draw]
    roster_train_recruit [of 1 "idle_state 10000 1 (squad 3 60)" sample_draw]
  by (simp add: idle_state_def squad_def numeral_3_eq_3)

subsection \<open>The match timer\<close>

lemma matchTick_running:
  "matchIntervalRef s = Some cl \<Longrightarrow> 1 < matchTimeLeft s \<Longrightarrow>
   matchTick ord r s =
     (None, s \<lparr> matchProgress := of_int (300 - (matchTimeLeft s - 1)) / 300 * 100,
                matchTimeLeft := matchTimeLeft s - 1 \<rparr>)"
  by (simp add: matchTick_def MATCH_DURATION_SECONDS_def Let_def)

lemma matchTick_last:
  "matchIntervalRef s = Some cl \<Longrightarrow> matchTimeLeft s = 1 \<Longrightarrow>
   snd (matchTick ord r s) =
     (case ord of
        AtDispatch \<Rightarrow>
          snd (finishMatch r cl (s \<lparr> matchProgress := 100 \<rparr>)) \<lparr> matchTimeLeft := 0 \<rparr>
      | WhileRendering \<Rightarrow> snd (finishMatch r cl (s \<lparr> matchProgress := 100 \<rparr>)))"
  by (simp add: matchTick_def MATCH_DURATION_SECONDS_def Let_def
      split: prod.splits schedule.splits)

lemma finishMatch_fields:
  "matchInProgress (snd (finishMatch r cl s)) = False"
  "matchIntervalRef (snd (finishMatch r cl s)) = None"
  "matchProgress (snd (finishMatch r cl s)) = matchProgress s"
  "matchTimeLeft (snd (finishMatch r cl s)) = 300"
  "players (snd (finishMatch r cl s)) = players s"
  "currentLeagueLevel (snd (finishMatch r cl s)) = currentLeagueLevel s"
  by (simp_all add: finishMatch_def MATCH_DURATION_SECONDS_def Let_def
      split: option.splits prod.splits)

text \<open>Whatever the time left was, a firing of the timer never leaves a negative one.\<close>

lemma matchTick_nonneg:
  "matchIntervalRef s \<noteq> None \<Longrightarrow> 0 \<le> matchTimeLeft (snd (matchTick ord r s))"
proof -
  assume "matchIntervalRef s \<noteq> None"
  then obtain cl where cl: "matchIntervalRef s = Some cl" by auto
  show ?thesis
  proof (cases "matchTimeLeft s - 1 \<le> 0")
    case True
    with cl have "snd (matchTick ord r s) =
      (case ord of
         AtDispatch \<Rightarrow>
           snd (finishMatch r cl
                  (s \<lparr> matchProgress :=
                         of_int (300 - (matchTimeLeft s - 1)) / 300 * 100 \<rparr>))
             \<lparr> matchTimeLeft := 0 \<rparr>
       | WhileRendering \<Rightarrow>
           snd (finishMatch r cl
                  (s \<lparr> matchProgress :=
                         of_int (300 - (matchTimeLeft s - 1)) / 300 * 100 \<rparr>)))"
      by (simp add: matchTick_def MATCH_DURATION_SECONDS_def Let_def
          split: prod.splits schedule.splits)
    then show ?thesis
      by (cases ord) (simp_all add: finishMatch_fields)
  next
    case False
    with cl show ?thesis
      by (simp add: matchTick_def Let_def)
  qed
qed

text \<open>
  Claim C5, as amended. While a match runs (the flag is set, the interval exists and time
  is left), a tick that finds more than one second on the clock takes exactly 1 off
  \<open>matchTimeLeft\<close> and leaves the match running. The tick that finds one second left
  ends the match; it leaves 0 on the clock when the updater's result is applied last, and
  300 when the reset of \<open>finishMatch\<close> is. In no case does \<open>matchTimeLeft\<close> go below 0.
  Every tick sets \<open>matchProgress\<close> to \<open>(300 - t) / 300 * 100\<close>, where \<open>t\<close> is the time it
  found less 1: that is 100 on the tick that ends the match. Starting a match sets the
  time to 300 and the progress to 0.
\<close>

theorem match_timer:
  "matchInProgress s \<Longrightarrow> matchIntervalRef s = Some cl \<Longrightarrow> 0 < matchTimeLeft s \<Longrightarrow>
   (let s' = snd (matchTick ord r s)
    in (1 < matchTimeLeft s \<longrightarrow>
          matchTimeLeft s' = matchTimeLeft s - 1
          \<and> matchInProgress s' \<and> matchIntervalRef s' = Some cl)
     \<and> (matchTimeLeft s = 1 \<longrightarrow>
          matchTimeLeft s' = (case ord of AtDispatch \<Rightarrow> 0 | WhileRendering \<Rightarrow> 300)
          \<and> matchProgress s' = 100
          \<and> \<not> matchInProgress s' \<and> matchIntervalRef s' = None)
     \<and> 0 \<le> matchTimeLeft s'
     \<and> matchProgress s' = of_int (300 - (matchTimeLeft s - 1)) / 300 * 100)
   \<and> (players s0 \<noteq> [] \<and> \<not> matchInProgress s0 \<longrightarrow>
        (let s1 = snd (startMatch s0)
         in matchInProgress s1 \<and> matchTimeLeft s1 = 300 \<and> matchProgress s1 = 0
          \<and> matchIntervalRef s1 \<noteq> None))"
proof -
  assume run: "matchInProgress s" "matchIntervalRef s = Some cl" "0 < matchTimeLeft s"
  have tick: "let s' = snd (matchTick ord r s)
    in (1 < matchTimeLeft s \<longrightarrow>
          matchTimeLeft s' = matchTimeLeft s - 1
          \<and> matchInProgress s' \<and> matchIntervalRef s' = Some cl)
     \<and> (matchTimeLeft s = 1 \<longrightarrow>
          matchTimeLeft s' = (case ord of AtDispatch \<Rightarrow> 0 | WhileRendering \<Rightarrow> 300)
          \<and> matchProgress s' = 100
          \<and> \<not> matchInProgress s' \<and> matchIntervalRef s' = None)
     \<and> 0 \<le> matchTimeLeft s'
     \<and> matchProgress s' = of_int (300 - (matchTimeLeft s - 1)) / 300 * 100"
  proof (cases "matchTimeLeft s = 1")
    case True
    with run show ?thesis
      by (cases ord) (simp_all add: matchTick_last finishMatch_fields)
  next
    case False
    with run have "1 < matchTimeLeft s" by simp
    with run show ?thesis
      by (simp add: matchTick_running)
  qed
  have start: "players s0 \<noteq> [] \<and> \<not> matchInProgress s0 \<longrightarrow>
        (let s1 = snd (startMatch s0)
         in matchInProgress s1 \<and> matchTimeLeft s1 = 300 \<and> matchProgress s1 = 0
          \<and> matchIntervalRef s1 \<noteq> None)"
    by (simp add: startMatch_def MATCH_DURATION_SECONDS_def)
  from tick start show ?thesis by simp
qed

theorem match_timer_witness:
  "snd (startMatch (idle_state 0 1 (squad 7 60))) = running_state 300
   \<and> matchProgress (running_state 300) = 0
   \<and> snd (matchTick WhileRendering (1 / 2) (running_state 300)) = running_state 299
   \<and> matchProgress (running_state 299) = 1 / 3
   \<and> matchTimeLeft (snd (matchTick AtDispatch (1 / 2) (running_state 1))) = 0
   \<and> matchTimeLeft (snd (matchTick WhileRendering (1 / 2) (running_state 1))) = 300
   \<and> matchProgress (snd (matchTick AtDispatch (1 / 2) (running_state 1))) = 100
   \<and> matchProgress (snd (matchTick WhileRendering (1 / 2) (running_state 1))) = 100
   \<and> \<not> matchInProgress (snd (matchTick AtDispatch (1 / 2) (running_state 1)))
   \<and> \<not> matchInProgress (snd (matchTick WhileRendering (1 / 2) (running_state 1)))"
  using match_timer [of "running_state 300" "\<lparr> cap_players = squad 7 60, cap_level = 1 \<rparr>"
      WhileRendering "1 / 2" "idle_state 0 1 (squad 7 60)"]
    match_timer [of "running_state 1" "\<lparr> cap_players = squad 7 60, cap_level = 1 \<rparr>"
      AtDispatch "1 / 2" "idle_state 0 1 (squad 7 60)"]
    match_timer [of "running_state 1" "\<lparr> cap_players = squad 7 60, cap_level = 1 \<rparr>"
      WhileRendering "1 / 2" "idle_state 0 1 (squad 7 60)"]
  by (simp add: running_state_def startMatch_def idle_state_def squad_def
      MATCH_DURATION_SECONDS_def matchTick_running Let_def)

text \<open>
  Claim C5 as it is written, at the last second of a match and with the updater run while
  rendering: the match is running with 1 second left, and after the tick the clock shows
  300, which is neither 1 less than before nor the 0 at which the progress is to be 100.
\<close>

theorem last_tick_resets_clock:
  "matchInProgress (running_state 1)
   \<and> matchIntervalRef (running_state 1)
       = Some \<lparr> cap_players = squad 7 60, cap_level = 1 \<rparr>
   \<and> matchTimeLeft (running_state 1) = 1
   \<and> matchTimeLeft (snd (matchTick WhileRendering (1 / 2) (running_state 1))) = 300
   \<and> matchProgress (snd (matchTick WhileRendering (1 / 2) (running_state 1))) = 100
   \<and> matchTimeLeft (snd (matchTick WhileRendering (1 / 2) (running_state 1)))
       \<noteq> matchTimeLeft (running_state 1) - 1"
  by (simp add: running_state_def matchTick_def finishMatch_fields
      MATCH_DURATION_SECONDS_def Let_def split: prod.splits)

text \<open>
  A whole match: the time left after \<open>n\<close> ticks, and the state after the 300 ticks that
  follow \<open>startMatch\<close>.
\<close>

lemma matchTicks_running:
  "matchIntervalRef s = Some cl \<Longrightarrow> rs \<noteq> [] \<Longrightarrow> int (length rs) < matchTimeLeft s \<Longrightarrow>
   matchTicks rs s =
     s \<lparr> matchProgress := of_int (300 - (matchTimeLeft s - int (length rs))) / 300 * 100,
         matchTimeLeft := matchTimeLeft s - int (length rs) \<rparr>"
proof (induction rs arbitrary: s)
  case Nil
  then show ?case by simp
next
  case (Cons x rs)
  obtain ord r where x: "x = (ord, r)" by (cases x)
  from Cons.prems have one: "1 < matchTimeLeft s" by simp
  let ?s1 = "s \<lparr> matchProgress := of_int (300 - (matchTimeLeft s - 1)) / 300 * 100,
                  matchTimeLeft := matchTimeLeft s - 1 \<rparr>"
  from Cons.prems one have step: "matchTick ord r s = (None, ?s1)"
    by (simp add: matchTick_running)
  show ?case
  proof (cases "rs = []")
    case True
    with step x show ?thesis by simp
  next
    case False
    from Cons.prems have ref: "matchIntervalRef ?s1 = Some cl"
      and len: "int (length rs) < matchTimeLeft ?s1" by simp_all
    from ref False len have "matchTicks rs ?s1 =
      ?s1 \<lparr> matchProgress :=
              of_int (300 - (matchTimeLeft ?s1 - int (length rs))) / 300 * 100,
            matchTimeLeft := matchTimeLeft ?s1 - int (length rs) \<rparr>"
      by (rule Cons.IH)
    with step x show ?thesis by (simp add: algebra_simps)
  qed
qed

text \<open>The sample state with one second left is what 299 ticks make of a fresh match.\<close>

lemma running_state_reached:
  "length rs = 299 \<Longrightarrow>
   matchTicks rs (snd (startMatch (idle_state 0 1 (squad 7 60)))) = running_state 1"
proof -
  assume len: "length rs = 299"
  have start: "snd (startMatch (idle_state 0 1 (squad 7 60))) = running_state 300"
    by (simp add: running_state_def startMatch_def idle_state_def squad_def
        MATCH_DURATION_SECONDS_def)
  have ref: "matchIntervalRef (running_state 300)
      = Some \<lparr> cap_players = squad 7 60, cap_level = 1 \<rparr>"
    by (simp add: running_state_def)
  from len have ne: "rs \<noteq> []" by auto
  from len have lt: "int (length rs) < matchTimeLeft (running_state 300)"
    by (simp add: running_state_def)
  from ref ne lt have "matchTicks rs (running_state 300) =
     running_state 300
       \<lparr> matchProgress :=
           of_int (300 - (matchTimeLeft (running_state 300) - int (length rs))) / 300 * 100,
         matchTimeLeft := matchTimeLeft (running_state 300) - int (length rs) \<rparr>"
    by (rule matchTicks_running)
  with len start show ?thesis
    by (simp add: running_state_def)
qed

lemma full_match:
  assumes "players s \<noteq> []" "\<not> matchInProgress s" "length rs = 299"
  shows "matchTimeLeft (matchTicks (rs @ [(ord, r)]) (snd (startMatch s)))
           = (case ord of AtDispatch \<Rightarrow> 0 | WhileRendering \<Rightarrow> 300)"
    and "matchProgress (matchTicks (rs @ [(ord, r)]) (snd (startMatch s))) = 100"
    and "\<not> matchInProgress (matchTicks (rs @ [(ord, r)]) (snd (startMatch s)))"
    and "matchIntervalRef (matchTicks (rs @ [(ord, r)]) (snd (startMatch s))) = None"
    and "matchTimeLeft (matchTicks rs (snd (startMatch s))) = 1"
    and "matchInProgress (matchTicks rs (snd (startMatch s)))"
proof -
  let ?s0 = "snd (startMatch s)"
  let ?cl = "\<lparr> cap_players = players s, cap_level = currentLeagueLevel s \<rparr>"
  have ticks_append: "matchTicks (xs @ ys) t = matchTicks ys (matchTicks xs t)" for xs ys t
    by (induction xs arbitrary: t) auto
  from assms have s0: "matchIntervalRef ?s0 = Some ?cl" "matchTimeLeft ?s0 = 300"
    "matchInProgress ?s0"
    by (simp_all add: startMatch_def MATCH_DURATION_SECONDS_def)
  from assms have ne: "rs \<noteq> []" by auto
  from s0 assms have len: "int (length rs) < matchTimeLeft ?s0" by simp
  from s0(1) ne len have run: "matchTicks rs ?s0 =
     ?s0 \<lparr> matchProgress := of_int (300 - (matchTimeLeft ?s0 - int (length rs))) / 300 * 100,
           matchTimeLeft := matchTimeLeft ?s0 - int (length rs) \<rparr>"
    by (rule matchTicks_running)
  let ?s1 = "matchTicks rs ?s0"
  from run s0 assms have s1: "matchIntervalRef ?s1 = Some ?cl" "matchTimeLeft ?s1 = 1"
    "matchInProgress ?s1"
    by simp_all
  then have last: "snd (matchTick ord r ?s1) =
     (case ord of
        AtDispatch \<Rightarrow>
          snd (finishMatch r ?cl (?s1 \<lparr> matchProgress := 100 \<rparr>)) \<lparr> matchTimeLeft := 0 \<rparr>
      | WhileRendering \<Rightarrow> snd (finishMatch r ?cl (?s1 \<lparr> matchProgress := 100 \<rparr>)))"
    by (simp add: matchTick_last)
  have all: "matchTicks (rs @ [(ord, r)]) ?s0 = snd (matchTick ord r ?s1)"
    by (simp add: ticks_append)
  show "matchTimeLeft (matchTicks (rs @ [(ord, r)]) ?s0)
           = (case ord of AtDispatch \<Rightarrow> 0 | WhileRendering \<Rightarrow> 300)"
    and "matchProgress (matchTicks (rs @ [(ord, r)]) ?s0) = 100"
    and "\<not> matchInProgress (matchTicks (rs @ [(ord, r)]) ?s0)"
    and "matchIntervalRef (matchTicks (rs @ [(ord, r)]) ?s0) = None"
    unfolding all last by (cases ord; simp add: finishMatch_fields)+
  from s1 show "matchTimeLeft ?s1 = 1" and "matchInProgress ?s1" by simp_all
qed

text \<open>
  Claim C10. With a match in progress, \<open>startMatch\<close> returns the state it was given: no
  field changes, and the timer handle is the one that was there. It shows nothing either,
  unless the roster is empty.
\<close>

theorem startMatch_in_progress_noop:
  "matchInProgress s \<Longrightarrow>
   snd (startMatch s) = s \<and> (players s \<noteq> [] \<longrightarrow> fst (startMatch s) = None)"
  by (simp add: startMatch_def)

theorem startMatch_in_progress_noop_witness:
  "matchInProgress (snd (startMatch (idle_state 0 1 (squad 7 60))))
   \<and> startMatch (snd (startMatch (idle_state 0 1 (squad 7 60))))
       = (None, snd (startMatch (idle_state 0 1 (squad 7 60))))"
  using startMatch_in_progress_noop [of "snd (startMatch (idle_state 0 1 (squad 7 60)))"]
  by (simp add: startMatch_def idle_state_def squad_def)

subsection \<open>Persistence\<close>

text \<open>
  The load effect by itself. When \<^verbatim>\<open>getItem\<close> gives it nothing, it sets the passive income
  from the stadium capacity; when it is given an object saved with a match in progress and
  time left, it takes up the match at that time and starts the interval.
\<close>

lemma loadEffect_absent:
  "loadEffect None s = Inr (s \<lparr> passiveIncomePerSecond := of_int (stadiumCapacity s) / 100 \<rparr>)"
  by (simp add: loadEffect_def)

lemma loadEffect_resumes:
  "sv_matchInProgress b = Some True \<Longrightarrow> sv_matchTimeLeft b = Some t \<Longrightarrow> 0 < t \<Longrightarrow>
   \<exists>s'. loadEffect (Some (Parsed b)) s = Inr s'
      \<and> matchInProgress s' \<and> matchTimeLeft s' = t
      \<and> matchProgress s' = of_int (300 - t) / 300 * 100
      \<and> matchIntervalRef s' = Some \<lparr> cap_players = players s, cap_level = currentLeagueLevel s \<rparr>"
  by (simp add: loadEffect_def or_default_simps or_false_simps MATCH_DURATION_SECONDS_def)

text \<open>
  What the load effect makes of an object that the save effect wrote from \<open>s\<close>: every
  field it sets is the saved one, except that a saved \<open>0\<close> of the click power, the stadium
  capacity or the time left comes back as the default.
\<close>

lemma loadEffect_saveEffect:
  "\<exists>s'. loadEffect (Some (Parsed (saveEffect s))) s0 = Inr s'
      \<and> money s' = money s
      \<and> clickPower s' = (if clickPower s = 0 then 1 else clickPower s)
      \<and> stadiumCapacity s' = (if stadiumCapacity s = 0 then 100 else stadiumCapacity s)
      \<and> passiveIncomePerSecond s' = passiveIncomePerSecond s
      \<and> matchInProgress s' = matchInProgress s
      \<and> matchTimeLeft s' = (if matchTimeLeft s = 0 then 300 else matchTimeLeft s)
      \<and> players s' = players s0
      \<and> currentLeagueLevel s' = currentLeagueLevel s0"
  by (cases "matchInProgress s")
    (simp_all add: loadEffect_def saveEffect_def or_default_simps or_false_simps
      MATCH_DURATION_SECONDS_def Let_def)

text \<open>
  The start of the process on a stored object: only the league level and the roster come
  from it. The other fields are those of the first render, which the save effect has
  written over the stored object before the load effect reads it.
\<close>

lemma mount_parsed:
  "mount (Some (Parsed b)) rnd =
     Inr \<lparr> money = 0, clickPower = 1, stadiumCapacity = 100, passiveIncomePerSecond = 0,
           currentLeagueLevel = or_default (sv_currentLeagueLevel b) 1,
           players = (case sv_players b of Some ps \<Rightarrow> ps | None \<Rightarrow> generateInitialLineup rnd),
           matchInProgress = False, matchTimeLeft = 300, matchProgress = 0,
           matchIntervalRef = None \<rparr>"
  by (simp add: mount_def initialState_def loadEffect_def saveEffect_def or_default_simps
      or_false_simps MATCH_DURATION_SECONDS_def)

lemma restart_eq:
  "restart s rnd =
     Inr \<lparr> money = 0, clickPower = 1, stadiumCapacity = 100, passiveIncomePerSecond = 0,
           currentLeagueLevel = (if currentLeagueLevel s = 0 then 1 else currentLeagueLevel s),
           players = players s,
           matchInProgress = False, matchTimeLeft = 300, matchProgress = 0,
           matchIntervalRef = None \<rparr>"
  by (simp add: restart_def mount_parsed saveEffect_def or_default_simps)

text \<open>
  Claim C9, as amended. With nothing stored, the process starts with money 0, click
  power 1, stadium capacity 100, passive income 0, league level 1, no match in progress,
  300 seconds on the clock and a freshly generated roster. With a stored string that
  parses to an object (its fields, where they are there, of the types of the state), a
  field that is missing from it gets the same default: the league level and the roster in
  the first render, the other fields in the load effect, and so also at the start of the
  process as a whole. None of this fails. Two stored strings are not handled, and the
  first render ends in an exception that nothing catches: one that does not parse, where
  \<^verbatim>\<open>JSON.parse\<close> throws a \<^verbatim>\<open>SyntaxError\<close>, and one that parses to \<^verbatim>\<open>null\<close>, where reading
  \<^verbatim>\<open>parsedState.currentLeagueLevel\<close> throws a \<^verbatim>\<open>TypeError\<close>.
\<close>

theorem load_defaults:
  "mount None rnd =
     Inr \<lparr> money = 0, clickPower = 1, stadiumCapacity = 100, passiveIncomePerSecond = 0,
           currentLeagueLevel = 1, players = generateInitialLineup rnd,
           matchInProgress = False, matchTimeLeft = 300, matchProgress = 0,
           matchIntervalRef = None \<rparr>
   \<and> (\<exists>s0. initialState (Some (Parsed b)) rnd = Inr s0
         \<and> (sv_currentLeagueLevel b = None \<longrightarrow> currentLeagueLevel s0 = 1)
         \<and> (sv_players b = None \<longrightarrow> players s0 = generateInitialLineup rnd))
   \<and> (\<exists>s'. loadEffect (Some (Parsed b)) s = Inr s'
         \<and> (sv_money b = None \<longrightarrow> money s' = 0)
         \<and> (sv_clickPower b = None \<longrightarrow> clickPower s' = 1)
         \<and> (sv_stadiumCapacity b = None \<longrightarrow> stadiumCapacity s' = 100)
         \<and> (sv_passiveIncomePerSecond b = None \<longrightarrow> passiveIncomePerSecond s' = 0)
         \<and> (sv_matchInProgress b = None \<longrightarrow> \<not> matchInProgress s')
         \<and> (sv_matchTimeLeft b = None \<longrightarrow> matchTimeLeft s' = 300))
   \<and> (\<exists>s'. mount (Some (Parsed b)) rnd = Inr s'
         \<and> (sv_money b = None \<longrightarrow> money s' = 0)
         \<and> (sv_clickPower b = None \<longrightarrow> clickPower s' = 1)
         \<and> (sv_stadiumCapacity b = None \<longrightarrow> stadiumCapacity s' = 100)
         \<and> (sv_passiveIncomePerSecond b = None \<longrightarrow> passiveIncomePerSecond s' = 0)
         \<and> (sv_currentLeagueLevel b = None \<longrightarrow> currentLeagueLevel s' = 1)
         \<and> (sv_players b = None \<longrightarrow> players s' = generateInitialLineup rnd)
         \<and> (sv_matchInProgress b = None \<longrightarrow> \<not> matchInProgress s')
         \<and> (sv_matchTimeLeft b = None \<longrightarrow> matchTimeLeft s' = 300))
   \<and> initialState (Some Unparsable) rnd = Inl SyntaxError
   \<and> mount (Some Unparsable) rnd = Inl SyntaxError
   \<and> initialState (Some ParsedNull) rnd = Inl TypeError
   \<and> mount (Some ParsedNull) rnd = Inl TypeError"
proof -
  have absent: "mount None rnd =
     Inr \<lparr> money = 0, clickPower = 1, stadiumCapacity = 100, passiveIncomePerSecond = 0,
           currentLeagueLevel = 1, players = generateInitialLineup rnd,
           matchInProgress = False, matchTimeLeft = 300, matchProgress = 0,
           matchIntervalRef = None \<rparr>"
    by (simp add: mount_def initialState_def loadEffect_def saveEffect_def or_default_simps
        or_false_simps MATCH_DURATION_SECONDS_def)
  have init: "\<exists>s0. initialState (Some (Parsed b)) rnd = Inr s0
         \<and> (sv_currentLeagueLevel b = None \<longrightarrow> currentLeagueLevel s0 = 1)
         \<and> (sv_players b = None \<longrightarrow> players s0 = generateInitialLineup rnd)"
    by (simp add: initialState_def or_default_simps)
  have load: "\<exists>s'. loadEffect (Some (Parsed b)) s = Inr s'
         \<and> (sv_money b = None \<longrightarrow> money s' = 0)
         \<and> (sv_clickPower b = None \<longrightarrow> clickPower s' = 1)
         \<and> (sv_stadiumCapacity b = None \<longrightarrow> stadiumCapacity s' = 100)
         \<and> (sv_passiveIncomePerSecond b = None \<longrightarrow> passiveIncomePerSecond s' = 0)
         \<and> (sv_matchInProgress b = None \<longrightarrow> \<not> matchInProgress s')
         \<and> (sv_matchTimeLeft b = None \<longrightarrow> matchTimeLeft s' = 300)"
    by (simp add: loadEffect_def or_default_simps or_false_simps
        MATCH_DURATION_SECONDS_def Let_def split: option.splits bool.splits)
  have whole: "\<exists>s'. mount (Some (Parsed b)) rnd = Inr s'
         \<and> (sv_money b = None \<longrightarrow> money s' = 0)
         \<and> (sv_clickPower b = None \<longrightarrow> clickPower s' = 1)
         \<and> (sv_stadiumCapacity b = None \<longrightarrow> stadiumCapacity s' = 100)
         \<and> (sv_passiveIncomePerSecond b = None \<longrightarrow> passiveIncomePerSecond s' = 0)
         \<and> (sv_currentLeagueLevel b = None \<longrightarrow> currentLeagueLevel s' = 1)
         \<and> (sv_players b = None \<longrightarrow> players s' = generateInitialLineup rnd)
         \<and> (sv_matchInProgress b = None \<longrightarrow> \<not> matchInProgress s')
         \<and> (sv_matchTimeLeft b = None \<longrightarrow> matchTimeLeft s' = 300)"
    by (simp add: mount_parsed or_default_simps)
  have bad: "initialState (Some Unparsable) rnd = Inl SyntaxError"
    "mount (Some Unparsable) rnd = Inl SyntaxError"
    "initialState (Some ParsedNull) rnd = Inl TypeError"
    "mount (Some ParsedNull) rnd = Inl TypeError"
    by (simp_all add: mount_def initialState_def)
  from absent init load whole bad show ?thesis by blast
qed

theorem load_defaults_witness:
  "sv_money blank = None \<and> sv_players blank = None
   \<and> loadEffect (Some (Parsed blank)) (idle_state 7 3 (squad 7 60) \<lparr> matchTimeLeft := 12 \<rparr>)
       = Inr (idle_state 0 3 (squad 7 60))
   \<and> initialState (Some (Parsed blank)) sample_rnd
       = Inr (idle_state 0 1 (generateInitialLineup sample_rnd))
   \<and> mount (Some (Parsed blank)) sample_rnd
       = Inr (idle_state 0 1 (generateInitialLineup sample_rnd))"
  using load_defaults [of sample_rnd blank "idle_state 7 3 (squad 7 60) \<lparr> matchTimeLeft := 12 \<rparr>"]
  by (simp add: blank_def idle_state_def loadEffect_def initialState_def mount_parsed
      or_default_simps or_false_simps MATCH_DURATION_SECONDS_def)

text \<open>
  The case of claim C9 that fails: on a stored string that does not parse, the first
  render ends in the exception, and so does the start of the process. The same holds of
  the stored string \<^verbatim>\<open>null\<close>, with the other exception.
\<close>

theorem unparsable_save_throws:
  "initialState (Some Unparsable) sample_rnd = Inl SyntaxError
   \<and> mount (Some Unparsable) sample_rnd = Inl SyntaxError
   \<and> loadEffect (Some Unparsable) (idle_state 0 1 (squad 7 60)) = Inl SyntaxError
   \<and> initialState (Some ParsedNull) sample_rnd = Inl TypeError
   \<and> mount (Some ParsedNull) sample_rnd = Inl TypeError
   \<and> loadEffect (Some ParsedNull) (idle_state 0 1 (squad 7 60)) = Inl TypeError"
  by (simp add: mount_def initialState_def loadEffect_def)

text \<open>Without an interval nothing ticks, whatever the draw.\<close>

lemma matchTick_no_interval: "matchIntervalRef s = None \<Longrightarrow> matchTick ord r s = (None, s)"
  by (simp add: matchTick_def)

text \<open>
  Claim C3, where the code departs from it. A process stopped in a match with 120 seconds
  left starts again with no match in progress and 300 seconds on the clock. And the
  load effect, given a saved object with a match in progress and 0 seconds left, sets the
  flag, puts 300 on the clock and starts no interval: in that state no tick ever comes,
  and \<open>startMatch\<close> does nothing, so the match is neither completed nor can another begin.
\<close>

theorem restart_in_progress:
  "restart (idle_state 50 1 (squad 7 60)
              \<lparr> matchInProgress := True, matchTimeLeft := 120, matchProgress := 60,
                matchIntervalRef := Some \<lparr> cap_players = squad 7 60, cap_level = 1 \<rparr> \<rparr>)
           sample_rnd
     = Inr (idle_state 0 1 (squad 7 60))
   \<and> loadEffect
        (Some (Parsed (saveEffect (idle_state 50 1 (squad 7 60)
                 \<lparr> matchInProgress := True, matchTimeLeft := 0 \<rparr>))))
        (idle_state 0 1 (squad 7 60))
     = Inr (idle_state 50 1 (squad 7 60) \<lparr> matchInProgress := True \<rparr>)
   \<and> matchTimeLeft (idle_state 50 1 (squad 7 60) \<lparr> matchInProgress := True \<rparr>) = 300
   \<and> matchIntervalRef (idle_state 50 1 (squad 7 60) \<lparr> matchInProgress := True \<rparr>) = None
   \<and> matchTick AtDispatch (1 / 2) (idle_state 50 1 (squad 7 60) \<lparr> matchInProgress := True \<rparr>)
     = (None, idle_state 50 1 (squad 7 60) \<lparr> matchInProgress := True \<rparr>)
   \<and> matchTick WhileRendering (1 / 2)
        (idle_state 50 1 (squad 7 60) \<lparr> matchInProgress := True \<rparr>)
     = (None, idle_state 50 1 (squad 7 60) \<lparr> matchInProgress := True \<rparr>)
   \<and> startMatch (idle_state 50 1 (squad 7 60) \<lparr> matchInProgress := True \<rparr>)
     = (None, idle_state 50 1 (squad 7 60) \<lparr> matchInProgress := True \<rparr>)"
  by (simp add: restart_eq idle_state_def loadEffect_def saveEffect_def or_default_simps
      or_false_simps MATCH_DURATION_SECONDS_def matchTick_def startMatch_def squad_def)

text \<open>
  Claim C4, where the code departs from it. The process starts with nothing stored, one
  ticket is sold, and the process is started again from what was saved: the money is 0
  again, not 1. And the load effect, given the object saved from a state with 0 seconds
  on the clock, puts 300 there.
\<close>

theorem restart_loses_state:
  "mount None sample_rnd = Inr (idle_state 0 1 (generateInitialLineup sample_rnd))
   \<and> handleTicketSaleClick (idle_state 0 1 (generateInitialLineup sample_rnd))
       = idle_state 1 1 (generateInitialLineup sample_rnd)
   \<and> restart (idle_state 1 1 (generateInitialLineup sample_rnd)) sample_rnd
       = Inr (idle_state 0 1 (generateInitialLineup sample_rnd))
   \<and> loadEffect
        (Some (Parsed (saveEffect
           (idle_state 1 1 (generateInitialLineup sample_rnd) \<lparr> matchTimeLeft := 0 \<rparr>))))
        (idle_state 0 1 (generateInitialLineup sample_rnd))
     = Inr (idle_state 1 1 (generateInitialLineup sample_rnd))
   \<and> matchTimeLeft (idle_state 1 1 (generateInitialLineup sample_rnd)) = 300"
  by (simp add: restart_eq mount_def initialState_def handleTicketSaleClick_def
      idle_state_def loadEffect_def saveEffect_def or_default_simps or_false_simps
      MATCH_DURATION_SECONDS_def)

end
